theory Spec2Isabelle
  imports Complex_Main
begin

section \<open>Data model of the aggregate service\<close>

text \<open>
  The engine of \<^verbatim>\<open>services/aggregate.py\<close> keeps two dictionaries of dictionaries,
  \<^verbatim>\<open>positions[strategy_id][symbol]\<close> and \<^verbatim>\<open>orders[strategy_id][symbol]\<close>, and talks
  to three collaborators: the SQLite storage, the Redis hashes and the Redis channel.
  Prices and timestamps are JSON numbers; the engine only compares, subtracts and
  multiplies them, and they are modelled as rationals. Events are the dictionaries
  decoded from the channel, typed after the schemas of \<^verbatim>\<open>services/events.py\<close>; only the
  keys the engine reads are kept. An optional key read with \<^verbatim>\<open>.get\<close> is an option
  (absent and null both read as \<^verbatim>\<open>None\<close>).
\<close>

type_synonym num = rat

text \<open>\<^verbatim>\<open>StrategySignalEvent\<close>, as read by \<^verbatim>\<open>process_signal\<close> and \<^verbatim>\<open>check_order_fill\<close>.\<close>

record signal =
  sig_event_id :: string
  sig_strategy_id :: string
  sig_symbol :: string
  sig_action :: string
  sig_price :: "num option"
  sig_stop_loss :: "num option"
  sig_take_profit :: "num option"

text \<open>
  A pending order is the signal dictionary itself with the key \<^verbatim>\<open>order_type\<close> added
  by \<^verbatim>\<open>_add_order\<close>.
\<close>

record order = signal +
  order_type :: string

text \<open>\<^verbatim>\<open>CandleUpdateEvent\<close>, as read by \<^verbatim>\<open>process_candle\<close> and the two checks.\<close>

record candle =
  cd_strategy_id :: string
  cd_symbol :: string
  cd_open :: num
  cd_high :: num
  cd_low :: num
  cd_close :: num
  cd_timestamp :: num

text \<open>
  \<^verbatim>\<open>StrategySetTPSLEvent\<close>. \<^verbatim>\<open>update_tp_sl\<close> tests \<^verbatim>\<open>'stop_loss' in data\<close>, so the
  presence of the key matters: \<open>None\<close> is an absent key, \<open>Some None\<close> a key holding
  null, \<open>Some (Some v)\<close> a key holding the number \<open>v\<close>.
\<close>

record tpsl_request =
  req_strategy_id :: string
  req_symbol :: string
  req_stop_loss :: "num option option"
  req_take_profit :: "num option option"

text \<open>
  The position dictionary built by \<^verbatim>\<open>check_order_fill\<close>. \<^verbatim>\<open>close_position\<close> also reads
  the key \<^verbatim>\<open>last_close\<close> with a default; \<open>pos_last_close = None\<close> is the absent key.
\<close>

record position =
  pos_strategy_id :: string
  pos_symbol :: string
  pos_side :: string
  pos_size :: num
  pos_entry_price :: num
  pos_entry_time :: num
  pos_stop_loss :: "num option"
  pos_take_profit :: "num option"
  pos_unrealised_pnl :: num
  pos_last_close :: "num option"

text \<open>The dictionaries handed to \<^verbatim>\<open>TradeStorage.save_order\<close> and \<^verbatim>\<open>save_trade\<close>.\<close>

record order_row =
  or_order_id :: string
  or_strategy_id :: string
  or_symbol :: string
  or_side :: string
  or_price :: num
  or_qty :: num
  or_type :: string
  or_status :: string

record trade_row =
  tr_strategy_id :: string
  tr_symbol :: string
  tr_side :: string
  tr_entry_price :: num
  tr_exit_price :: num
  tr_qty :: num
  tr_pnl :: num
  tr_entry_time :: num
  tr_exit_time :: num
  tr_reason :: string

text \<open>
  The events the engine publishes, with the fields the engine sets (the identifier and
  the timestamp that \<^verbatim>\<open>BaseEvent\<close> generates are left out).
\<close>

record order_execution =
  oe_strategy_id :: string
  oe_symbol :: string
  oe_order_id :: string
  oe_order_type :: string
  oe_side :: string
  oe_price :: num
  oe_qty :: num
  oe_status :: string

record position_state =
  ps_strategy_id :: string
  ps_symbol :: string
  ps_side :: string
  ps_size :: num
  ps_entry_price :: num
  ps_unrealised_pnl :: num
  ps_stop_loss :: "num option"
  ps_take_profit :: "num option"

record trade_terminal =
  tt_strategy_id :: string
  tt_symbol :: string
  tt_trigger_type :: string
  tt_exit_price :: num
  tt_pnl :: num
  tt_realised_pnl :: num

datatype notice =
    OrderExecutionEvent order_execution
  | PositionStateEvent position_state
  | TradeTerminalEvent trade_terminal

text \<open>
  What \<^verbatim>\<open>json.dumps(data)\<close> writes into a Redis hash: an order, a position, or
  \<^verbatim>\<open>null\<close> for \<^verbatim>\<open>None\<close>.
\<close>

datatype payload = OrderJson order | PositionJson position | NullJson

text \<open>
  Every statement of a handler that changes something is recorded, in program order, in
  the engine's trace: a write to or a removal from one of the two in-memory dictionaries
  (named by the dictionary, the strategy and the symbol), a row saved to the storage, a
  field set in or deleted from a Redis hash (named by key and field), a published event.
\<close>

datatype effect =
    MemSet string string string
  | MemPop string string string
  | SaveOrder order_row
  | SaveTrade trade_row
  | MirrorSet string string payload
  | MirrorDel string string
  | Publish notice

record engine =
  positions :: "string \<rightharpoonup> (string \<rightharpoonup> position)"
  orders :: "string \<rightharpoonup> (string \<rightharpoonup> order)"
  trace :: "effect list"

text \<open>\<^verbatim>\<open>AggregateService.__init__\<close>: both dictionaries empty.\<close>

definition init :: engine where
  "init = \<lparr>positions = Map.empty, orders = Map.empty, trace = []\<rparr>"

text \<open>
  A handler either runs to its end or raises; the exception leaves the engine as the
  statements before it made it, which is what the loop of \<^verbatim>\<open>run\<close> goes on with.
\<close>

datatype error = KeyError | TypeError

datatype outcome = Done engine | Raised error engine

definition state_of :: "outcome \<Rightarrow> engine" where
  "state_of r = (case r of Done s \<Rightarrow> s | Raised e s \<Rightarrow> s)"

datatype event =
    StrategySignalEvent signal
  | CandleUpdateEvent candle
  | StrategySetTPSLEvent tpsl_request
  | OtherEvent string

section \<open>Python primitives\<close>

text \<open>Truth value of an optional number: \<^verbatim>\<open>None\<close>, \<^verbatim>\<open>0\<close> and \<^verbatim>\<open>0.0\<close> are false.\<close>

definition truthy :: "num option \<Rightarrow> bool" where
  "truthy x = (case x of None \<Rightarrow> False | Some v \<Rightarrow> v \<noteq> 0)"

text \<open>\<^verbatim>\<open>x or d\<close> for an optional number \<open>x\<close>.\<close>

definition or_else :: "num option \<Rightarrow> num \<Rightarrow> num" where
  "or_else x d = (case x of None \<Rightarrow> d | Some v \<Rightarrow> if v \<noteq> 0 then v else d)"

text \<open>\<^verbatim>\<open>s.startswith(p)\<close>.\<close>

definition startswith :: "string \<Rightarrow> string \<Rightarrow> bool" where
  "startswith s p = (take (length p) s = p)"

text \<open>\<^verbatim>\<open>d.get(strategy_id, {}).get(symbol)\<close> on a dictionary of dictionaries.\<close>

definition slot_get :: "(string \<rightharpoonup> (string \<rightharpoonup> 'a)) \<Rightarrow> string \<Rightarrow> string \<Rightarrow> 'a option" where
  "slot_get d strategy_id symbol =
     (case d strategy_id of None \<Rightarrow> None | Some inner \<Rightarrow> inner symbol)"

text \<open>
  \<^verbatim>\<open>d.setdefault(strategy_id, {})[symbol] = v\<close>; \<^verbatim>\<open>_add_order\<close> writes the same thing
  as a membership test followed by two assignments.
\<close>

definition slot_set ::
  "(string \<rightharpoonup> (string \<rightharpoonup> 'a)) \<Rightarrow> string \<Rightarrow> string \<Rightarrow> 'a \<Rightarrow> (string \<rightharpoonup> (string \<rightharpoonup> 'a))" where
  "slot_set d strategy_id symbol v =
     d(strategy_id \<mapsto>
        (case d strategy_id of None \<Rightarrow> Map.empty | Some inner \<Rightarrow> inner)(symbol \<mapsto> v))"

text \<open>
  \<^verbatim>\<open>d[strategy_id].pop(symbol)\<close>: raises \<^verbatim>\<open>KeyError\<close> (here \<open>None\<close>) when either key is
  missing; the inner dictionary stays in place, emptied of the symbol.
\<close>

definition slot_pop ::
  "(string \<rightharpoonup> (string \<rightharpoonup> 'a)) \<Rightarrow> string \<Rightarrow> string \<Rightarrow> (string \<rightharpoonup> (string \<rightharpoonup> 'a)) option" where
  "slot_pop d strategy_id symbol =
     (case d strategy_id of
        None \<Rightarrow> None
      | Some inner \<Rightarrow>
          (case inner symbol of
             None \<Rightarrow> None
           | Some v \<Rightarrow> Some (d(strategy_id \<mapsto> inner(symbol := None)))))"

section \<open>The engine\<close>

definition emit :: "effect \<Rightarrow> engine \<Rightarrow> engine" where
  "emit e s = s\<lparr>trace := trace s @ [e]\<rparr>"

text \<open>\<^verbatim>\<open>_get_order\<close> and \<^verbatim>\<open>_get_position\<close>.\<close>

definition get_order :: "engine \<Rightarrow> string \<Rightarrow> string \<Rightarrow> order option" where
  "get_order s strategy_id symbol = slot_get (orders s) strategy_id symbol"

definition get_position :: "engine \<Rightarrow> string \<Rightarrow> string \<Rightarrow> position option" where
  "get_position s strategy_id symbol = slot_get (positions s) strategy_id symbol"

text \<open>\<^verbatim>\<open>_publish_event\<close>.\<close>

definition publish_event :: "engine \<Rightarrow> notice \<Rightarrow> engine" where
  "publish_event s ev = emit (Publish ev) s"

text \<open>\<^verbatim>\<open>_sync_state_to_redis\<close>: \<^verbatim>\<open>hdel\<close> when \<^verbatim>\<open>remove\<close> is set, \<^verbatim>\<open>hset\<close> otherwise.\<close>

definition sync_state_to_redis ::
  "engine \<Rightarrow> string \<Rightarrow> string \<Rightarrow> string \<Rightarrow> payload \<Rightarrow> bool \<Rightarrow> engine" where
  "sync_state_to_redis s strategy_id symbol state_type data remove =
     (let key = ''strategy:'' @ strategy_id @ '':'' @ state_type in
      if remove then emit (MirrorDel key symbol) s
      else emit (MirrorSet key symbol data) s)"

text \<open>\<^verbatim>\<open>_add_order\<close>.\<close>

definition add_order :: "engine \<Rightarrow> string \<Rightarrow> string \<Rightarrow> signal \<Rightarrow> string \<Rightarrow> engine" where
  "add_order s strategy_id symbol data otype =
     (let data' = \<lparr>sig_event_id = sig_event_id data,
                   sig_strategy_id = sig_strategy_id data,
                   sig_symbol = sig_symbol data,
                   sig_action = sig_action data,
                   sig_price = sig_price data,
                   sig_stop_loss = sig_stop_loss data,
                   sig_take_profit = sig_take_profit data,
                   order_type = otype\<rparr>;
          s1 = emit (MemSet ''orders'' strategy_id symbol)
                 (s\<lparr>orders := slot_set (orders s) strategy_id symbol data'\<rparr>)
      in sync_state_to_redis s1 strategy_id symbol ''orders'' (OrderJson data') False)"

text \<open>
  \<^verbatim>\<open>close_position\<close>. \<open>now\<close> is what \<^verbatim>\<open>time.time()\<close> returns, used when no truthy
  timestamp is passed.
\<close>

definition close_position ::
  "num \<Rightarrow> engine \<Rightarrow> string \<Rightarrow> string \<Rightarrow> position \<Rightarrow> num option \<Rightarrow> string \<Rightarrow> num option \<Rightarrow> outcome" where
  "close_position now s strategy_id symbol pos price_override reason timestamp =
     (let exit_price =
            or_else price_override
              (case pos_last_close pos of Some c \<Rightarrow> c | None \<Rightarrow> pos_entry_price pos);
          timestamp' = or_else timestamp now;
          pnl = (if pos_side pos = ''LONG''
                 then (exit_price - pos_entry_price pos) * pos_size pos
                 else (pos_entry_price pos - exit_price) * pos_size pos);
          s1 = emit (SaveTrade
                 \<lparr>tr_strategy_id = strategy_id, tr_symbol = symbol, tr_side = pos_side pos,
                  tr_entry_price = pos_entry_price pos, tr_exit_price = exit_price,
                  tr_qty = pos_size pos, tr_pnl = pnl, tr_entry_time = pos_entry_time pos,
                  tr_exit_time = timestamp', tr_reason = reason\<rparr>) s
      in case slot_pop (positions s1) strategy_id symbol of
           None \<Rightarrow> Raised KeyError s1
         | Some positions' \<Rightarrow>
             (let s2 = emit (MemPop ''positions'' strategy_id symbol) (s1\<lparr>positions := positions'\<rparr>);
                  s3 = sync_state_to_redis s2 strategy_id symbol ''positions'' NullJson True;
                  s4 = publish_event s3 (TradeTerminalEvent
                         \<lparr>tt_strategy_id = strategy_id, tt_symbol = symbol,
                          tt_trigger_type = (if reason \<in> set [''TP'', ''SL''] then reason else ''TP''),
                          tt_exit_price = exit_price, tt_pnl = pnl, tt_realised_pnl = pnl\<rparr>);
                  s5 = publish_event s4 (PositionStateEvent
                         \<lparr>ps_strategy_id = strategy_id, ps_symbol = symbol, ps_side = ''FLAT'',
                          ps_size = 0, ps_entry_price = 0, ps_unrealised_pnl = 0,
                          ps_stop_loss = None, ps_take_profit = None\<rparr>)
              in Done s5))"

text \<open>
  \<^verbatim>\<open>check_order_fill\<close>. The first \<open>case\<close> is the decision: \<open>Some fill_price\<close> when
  \<^verbatim>\<open>filled\<close> is set. Comparing a candle bound with a price of \<^verbatim>\<open>None\<close> raises
  \<^verbatim>\<open>TypeError\<close>.
\<close>

definition check_order_fill ::
  "engine \<Rightarrow> string \<Rightarrow> string \<Rightarrow> order \<Rightarrow> candle \<Rightarrow> outcome" where
  "check_order_fill s strategy_id symbol ord cd =
     (let price = sig_price ord in
      case (if order_type ord = ''MARKET'' then Inr (Some (cd_open cd))
            else (case price of
                    None \<Rightarrow> Inl TypeError
                  | Some p \<Rightarrow> Inr (if cd_low cd \<le> p \<and> p \<le> cd_high cd then Some p else None))) of
        Inl e \<Rightarrow> Raised e s
      | Inr None \<Rightarrow> Done s
      | Inr (Some fill_price) \<Rightarrow>
          (let side = (if sig_action ord = ''OPEN_LONG'' then ''LONG'' else ''SHORT'');
               new_pos = \<lparr>pos_strategy_id = strategy_id, pos_symbol = symbol, pos_side = side,
                          pos_size = 1, pos_entry_price = fill_price,
                          pos_entry_time = cd_timestamp cd,
                          pos_stop_loss = sig_stop_loss ord,
                          pos_take_profit = sig_take_profit ord,
                          pos_unrealised_pnl = 0, pos_last_close = None\<rparr>;
               s1 = emit (MemSet ''positions'' strategy_id symbol)
                      (s\<lparr>positions := slot_set (positions s) strategy_id symbol new_pos\<rparr>)
           in case slot_pop (orders s1) strategy_id symbol of
                None \<Rightarrow> Raised KeyError s1
              | Some orders' \<Rightarrow>
                  (let s2 = emit (MemPop ''orders'' strategy_id symbol) (s1\<lparr>orders := orders'\<rparr>);
                       s3 = publish_event s2 (OrderExecutionEvent
                              \<lparr>oe_strategy_id = strategy_id, oe_symbol = symbol,
                               oe_order_id = sig_event_id ord, oe_order_type = order_type ord,
                               oe_side = (if side = ''LONG'' then ''BUY'' else ''SELL''),
                               oe_price = fill_price, oe_qty = 1, oe_status = ''FILLED''\<rparr>);
                       s4 = emit (SaveOrder
                              \<lparr>or_order_id = sig_event_id ord, or_strategy_id = strategy_id,
                               or_symbol = symbol, or_side = sig_action ord,
                               or_price = fill_price, or_qty = 1, or_type = order_type ord,
                               or_status = ''FILLED''\<rparr>) s3;
                       s5 = sync_state_to_redis s4 strategy_id symbol ''orders'' NullJson True;
                       s6 = sync_state_to_redis s5 strategy_id symbol ''positions''
                              (PositionJson new_pos) False
                   in Done s6)))"

text \<open>
  \<^verbatim>\<open>check_position_exit\<close>. The first \<open>let\<close> is the pair \<^verbatim>\<open>(exit_price, reason)\<close>,
  \<open>None\<close> while both are still \<^verbatim>\<open>None\<close>; \<^verbatim>\<open>sl and candle['low'] <= sl\<close> needs a truthy
  \<^verbatim>\<open>sl\<close>, and the final \<^verbatim>\<open>if exit_price\<close> a truthy exit price.
\<close>

definition check_position_exit ::
  "num \<Rightarrow> engine \<Rightarrow> string \<Rightarrow> string \<Rightarrow> position \<Rightarrow> candle \<Rightarrow> outcome" where
  "check_position_exit now s strategy_id symbol pos cd =
     (let sl = pos_stop_loss pos;
          tp = pos_take_profit pos;
          side = pos_side pos;
          decision =
            (if side = ''LONG'' then
               (if truthy sl \<and> (case sl of Some v \<Rightarrow> cd_low cd \<le> v | None \<Rightarrow> False)
                then Some (sl, ''SL'')
                else if truthy tp \<and> (case tp of Some v \<Rightarrow> cd_high cd \<ge> v | None \<Rightarrow> False)
                then Some (tp, ''TP'')
                else None)
             else
               (if truthy sl \<and> (case sl of Some v \<Rightarrow> cd_high cd \<ge> v | None \<Rightarrow> False)
                then Some (sl, ''SL'')
                else if truthy tp \<and> (case tp of Some v \<Rightarrow> cd_low cd \<le> v | None \<Rightarrow> False)
                then Some (tp, ''TP'')
                else None))
      in case decision of
           None \<Rightarrow> Done s
         | Some (exit_price, reason) \<Rightarrow>
             (if truthy exit_price
              then close_position now s strategy_id symbol pos exit_price reason
                     (Some (cd_timestamp cd))
              else Done s))"

text \<open>\<^verbatim>\<open>process_signal\<close>.\<close>

definition process_signal :: "num \<Rightarrow> engine \<Rightarrow> signal \<Rightarrow> outcome" where
  "process_signal now s data =
     (let strategy_id = sig_strategy_id data;
          symbol = sig_symbol data;
          action = sig_action data;
          price = sig_price data
      in if startswith action ''OPEN'' then
           (if \<not> truthy price
            then Done (add_order s strategy_id symbol data ''MARKET'')
            else Done (add_order s strategy_id symbol data ''LIMIT''))
         else if startswith action ''CLOSE'' then
           (case get_position s strategy_id symbol of
              None \<Rightarrow> Done s
            | Some pos \<Rightarrow> close_position now s strategy_id symbol pos None ''SIGNAL'' None)
         else Done s)"

text \<open>
  \<^verbatim>\<open>process_candle\<close>: the fill check, then the exit check on the position the slot
  holds after it. An exception in the first skips the second.
\<close>

definition process_candle :: "num \<Rightarrow> engine \<Rightarrow> candle \<Rightarrow> outcome" where
  "process_candle now s data =
     (let strategy_id = cd_strategy_id data;
          symbol = cd_symbol data
      in case (case get_order s strategy_id symbol of
                 None \<Rightarrow> Done s
               | Some ord \<Rightarrow> check_order_fill s strategy_id symbol ord data) of
           Raised e s1 \<Rightarrow> Raised e s1
         | Done s1 \<Rightarrow>
             (case get_position s1 strategy_id symbol of
                None \<Rightarrow> Done s1
              | Some pos \<Rightarrow> check_position_exit now s1 strategy_id symbol pos data))"

text \<open>
  \<^verbatim>\<open>update_tp_sl\<close>: the two assignments change the stored position dictionary in
  place, each only when its key is in the request.
\<close>

definition update_tp_sl :: "engine \<Rightarrow> tpsl_request \<Rightarrow> outcome" where
  "update_tp_sl s data =
     (let strategy_id = req_strategy_id data;
          symbol = req_symbol data
      in case get_position s strategy_id symbol of
           None \<Rightarrow> Done s
         | Some pos \<Rightarrow>
             (let (pos1, s1) =
                    (case req_stop_loss data of
                       None \<Rightarrow> (pos, s)
                     | Some v \<Rightarrow>
                         (pos\<lparr>pos_stop_loss := v\<rparr>,
                          emit (MemSet ''positions'' strategy_id symbol)
                            (s\<lparr>positions := slot_set (positions s) strategy_id symbol
                                                (pos\<lparr>pos_stop_loss := v\<rparr>)\<rparr>)));
                  (pos2, s2) =
                    (case req_take_profit data of
                       None \<Rightarrow> (pos1, s1)
                     | Some v \<Rightarrow>
                         (pos1\<lparr>pos_take_profit := v\<rparr>,
                          emit (MemSet ''positions'' strategy_id symbol)
                            (s1\<lparr>positions := slot_set (positions s1) strategy_id symbol
                                                 (pos1\<lparr>pos_take_profit := v\<rparr>)\<rparr>)));
                  s3 = publish_event s2 (PositionStateEvent
                         \<lparr>ps_strategy_id = strategy_id, ps_symbol = symbol,
                          ps_side = pos_side pos2, ps_size = pos_size pos2,
                          ps_entry_price = pos_entry_price pos2, ps_unrealised_pnl = 0,
                          ps_stop_loss = pos_stop_loss pos2,
                          ps_take_profit = pos_take_profit pos2\<rparr>)
              in Done (sync_state_to_redis s3 strategy_id symbol ''positions''
                         (PositionJson pos2) False)))"

text \<open>\<^verbatim>\<open>handle_event\<close>: an event type the engine does not know is skipped.\<close>

definition handle_event :: "num \<Rightarrow> engine \<Rightarrow> event \<Rightarrow> outcome" where
  "handle_event now s ev =
     (case ev of
        StrategySignalEvent data \<Rightarrow> process_signal now s data
      | CandleUpdateEvent data \<Rightarrow> process_candle now s data
      | StrategySetTPSLEvent data \<Rightarrow> update_tp_sl s data
      | OtherEvent t \<Rightarrow> Done s)"

text \<open>
  The loop of \<^verbatim>\<open>run\<close> on a finite sequence of decoded messages, each paired with the
  clock reading of its handling: an exception is printed and the loop goes on.
\<close>

fun run :: "engine \<Rightarrow> (num \<times> event) list \<Rightarrow> engine" where
  "run s [] = s"
| "run s ((now, ev) # rest) = run (state_of (handle_event now s ev)) rest"

section \<open>Vocabulary of the properties\<close>

text \<open>
  The four kinds of effect the synchronisation discipline speaks of: a change of the
  in-memory dictionaries, a row persisted by the storage (the ledger), a write to a Redis
  hash (the mirror), a published notice.
\<close>

datatype phase = Memory | Ledger | Mirror | Notice

fun phase_of :: "effect \<Rightarrow> phase" where
  "phase_of (MemSet d a b) = Memory"
| "phase_of (MemPop d a b) = Memory"
| "phase_of (SaveOrder r) = Ledger"
| "phase_of (SaveTrade r) = Ledger"
| "phase_of (MirrorSet k f d) = Mirror"
| "phase_of (MirrorDel k f) = Mirror"
| "phase_of (Publish n) = Notice"

text \<open>The effects a handler added to the trace, taking the engine from \<open>s\<close> to \<open>s'\<close>.\<close>

definition new_effects :: "engine \<Rightarrow> engine \<Rightarrow> effect list" where
  "new_effects s s' = drop (length (trace s)) (trace s')"

text \<open>
  The order the specification asks for within one handler invocation: memory, then
  ledger, then mirror, then notice.
\<close>

fun phase_rank :: "phase \<Rightarrow> nat" where
  "phase_rank Memory = 0"
| "phase_rank Ledger = 1"
| "phase_rank Mirror = 2"
| "phase_rank Notice = 3"

definition spec_ordered :: "effect list \<Rightarrow> bool" where
  "spec_ordered es = sorted (map (phase_rank \<circ> phase_of) es)"

text \<open>
  A sequence of events in which no open signal is handled at a moment when its slot
  holds a position.
\<close>

fun no_open_on_position :: "engine \<Rightarrow> (num \<times> event) list \<Rightarrow> bool" where
  "no_open_on_position s [] = True"
| "no_open_on_position s ((now, ev) # rest) =
     ((case ev of
         StrategySignalEvent data \<Rightarrow>
           startswith (sig_action data) ''OPEN'' \<longrightarrow>
             get_position s (sig_strategy_id data) (sig_symbol data) = None
       | _ \<Rightarrow> True)
      \<and> no_open_on_position (state_of (handle_event now s ev)) rest)"

section \<open>A worked scenario\<close>

text \<open>
  Strategy \<open>S\<close> asks to open a long on symbol \<open>X\<close> at the market, with a stop at 95
  and a target at 110; the next tick opens at 100 and stays between the two bounds, so
  the order fills and the position is held.
\<close>

definition demo_open_long :: signal where
  "demo_open_long = \<lparr>sig_event_id = ''e1'', sig_strategy_id = ''S'', sig_symbol = ''X'',
     sig_action = ''OPEN_LONG'', sig_price = None, sig_stop_loss = Some 95,
     sig_take_profit = Some 110\<rparr>"

definition demo_tick :: candle where
  "demo_tick = \<lparr>cd_strategy_id = ''S'', cd_symbol = ''X'', cd_open = 100, cd_high = 105,
     cd_low = 99, cd_close = 101, cd_timestamp = 1\<rparr>"

definition demo_long_position :: position where
  "demo_long_position = \<lparr>pos_strategy_id = ''S'', pos_symbol = ''X'', pos_side = ''LONG'',
     pos_size = 1, pos_entry_price = 100, pos_entry_time = 1, pos_stop_loss = Some 95,
     pos_take_profit = Some 110, pos_unrealised_pnl = 0, pos_last_close = None\<rparr>"

definition demo_pending :: engine where
  "demo_pending = run init [(0, StrategySignalEvent demo_open_long)]"

definition demo_long_held :: engine where
  "demo_long_held = run demo_pending [(1, CandleUpdateEvent demo_tick)]"

text \<open>A tick whose range reaches both the stop and the target of the position.\<close>

definition demo_wide_tick :: candle where
  "demo_wide_tick = \<lparr>cd_strategy_id = ''S'', cd_symbol = ''X'', cd_open = 100, cd_high = 120,
     cd_low = 90, cd_close = 101, cd_timestamp = 2\<rparr>"



definition demo_market_order :: order where
  "demo_market_order = \<lparr>sig_event_id = ''e1'', sig_strategy_id = ''S'', sig_symbol = ''X'',
     sig_action = ''OPEN_LONG'', sig_price = None, sig_stop_loss = Some 95,
     sig_take_profit = Some 110, order_type = ''MARKET''\<rparr>"


text \<open>
  A third scenario: a short at 100 whose stop is the number 0 and whose target is 90,
  held in the slot, and a tick ranging from 80 to 100.
\<close>

definition demo_short_zero_stop :: position where
  "demo_short_zero_stop = \<lparr>pos_strategy_id = ''S'', pos_symbol = ''X'', pos_side = ''SHORT'',
     pos_size = 1, pos_entry_price = 100, pos_entry_time = 1, pos_stop_loss = Some 0,
     pos_take_profit = Some 90, pos_unrealised_pnl = 0, pos_last_close = None\<rparr>"

definition demo_short_zero_held :: engine where
  "demo_short_zero_held =
     run init
       [(0, StrategySignalEvent \<lparr>sig_event_id = ''e3'', sig_strategy_id = ''S'',
              sig_symbol = ''X'', sig_action = ''OPEN_SHORT'', sig_price = Some 100,
              sig_stop_loss = Some 0, sig_take_profit = Some 90\<rparr>),
        (1, CandleUpdateEvent demo_tick)]"

definition demo_low_tick :: candle where
  "demo_low_tick = \<lparr>cd_strategy_id = ''S'', cd_symbol = ''X'', cd_open = 95, cd_high = 100,
     cd_low = 80, cd_close = 85, cd_timestamp = 2\<rparr>"

text \<open>The first scenario after the wide tick has closed the long position.\<close>

definition demo_closed :: engine where
  "demo_closed = state_of (process_candle 2 demo_long_held demo_wide_tick)"

text \<open>A request that carries a new target for the long position and no stop key.\<close>

definition demo_target_request :: tpsl_request where
  "demo_target_request = \<lparr>req_strategy_id = ''S'', req_symbol = ''X'',
     req_stop_loss = None, req_take_profit = Some (Some 120)\<rparr>"

text \<open>
  Two event sequences: in the first the open signal is repeated while the long position
  is held; in the second it is repeated only after the wide tick has closed the position.
\<close>

definition demo_double_open :: "(num \<times> event) list" where
  "demo_double_open =
     [(0, StrategySignalEvent demo_open_long), (1, CandleUpdateEvent demo_tick),
      (2, StrategySignalEvent demo_open_long)]"

definition demo_reopen_after_close :: "(num \<times> event) list" where
  "demo_reopen_after_close =
     [(0, StrategySignalEvent demo_open_long), (1, CandleUpdateEvent demo_tick),
      (2, CandleUpdateEvent demo_wide_tick), (3, StrategySignalEvent demo_open_long)]"


section \<open>Dictionaries of dictionaries\<close>

lemma slot_get_set:
  "slot_get (slot_set d a b v) a' b' = (if a' = a \<and> b' = b then Some v else slot_get d a' b')"
  by (simp add: slot_get_def slot_set_def split: option.splits)

lemma slot_pop_None: "slot_pop d a b = None \<longleftrightarrow> slot_get d a b = None"
  by (simp add: slot_get_def slot_pop_def split: option.splits)

lemma slot_get_pop:
  "slot_pop d a b = Some d' \<Longrightarrow>
   slot_get d' a' b' = (if a' = a \<and> b' = b then None else slot_get d a' b')"
  by (auto simp add: slot_get_def slot_pop_def split: option.splits if_splits)

lemma slot_pop_total:
  assumes "slot_get d a b = Some v"
  obtains d' where "slot_pop d a b = Some d'"
  using assms slot_pop_None [of d a b] by (cases "slot_pop d a b") simp_all

section \<open>Effects of the primitives\<close>

lemma emit_fields [simp]:
  "positions (emit e s) = positions s"
  "orders (emit e s) = orders s"
  "trace (emit e s) = trace s @ [e]"
  by (simp_all add: emit_def)

lemma publish_event_fields [simp]:
  "positions (publish_event s ev) = positions s"
  "orders (publish_event s ev) = orders s"
  "trace (publish_event s ev) = trace s @ [Publish ev]"
  by (simp_all add: publish_event_def)

lemma sync_state_fields [simp]:
  "positions (sync_state_to_redis s a b t d r) = positions s"
  "orders (sync_state_to_redis s a b t d r) = orders s"
  "trace (sync_state_to_redis s a b t d r) =
     trace s @ [if r then MirrorDel (''strategy:'' @ a @ '':'' @ t) b
                else MirrorSet (''strategy:'' @ a @ '':'' @ t) b d]"
  by (simp_all add: sync_state_to_redis_def Let_def)

lemma new_effects_append [simp]: "trace s' = trace s @ es \<Longrightarrow> new_effects s s' = es"
  by (simp add: new_effects_def)

lemma new_effects_same [simp]: "new_effects s s = []"
  by (simp add: new_effects_def)

lemma positions_add_order [simp]: "positions (add_order s a b data t) = positions s"
  by (simp add: add_order_def Let_def)

lemma get_position_add_order [simp]:
  "get_position (add_order s a b data t) a' b' = get_position s a' b'"
  by (simp add: get_position_def)

lemma get_order_add_order_other:
  "\<not> (a' = a \<and> b' = b) \<Longrightarrow> get_order (add_order s a b data t) a' b' = get_order s a' b'"
  by (auto simp add: get_order_def add_order_def Let_def slot_get_set)

section \<open>What the fill and the close do to the slots\<close>

lemma close_position_Done:
  assumes "get_position s a b = Some q"
  shows "\<exists>s'. close_position now s a b pos po reason ts = Done s' \<and>
           orders s' = orders s \<and>
           (\<forall>a' b'. get_position s' a' b' =
                      (if a' = a \<and> b' = b then None else get_position s a' b'))"
proof -
  from assms obtain d' where d': "slot_pop (positions s) a b = Some d'"
    unfolding get_position_def by (rule slot_pop_total)
  have "\<exists>s'. close_position now s a b pos po reason ts = Done s' \<and>
           orders s' = orders s \<and> positions s' = d'"
    by (simp add: close_position_def Let_def d')
  then show ?thesis
    using slot_get_pop [OF d'] by (auto simp add: get_position_def)
qed

lemma check_position_exit_cases:
  assumes "get_position s a b = Some q"
  shows "check_position_exit now s a b pos cd = Done s \<or>
         (\<exists>s'. check_position_exit now s a b pos cd = Done s' \<and>
           orders s' = orders s \<and>
           (\<forall>a' b'. get_position s' a' b' =
                      (if a' = a \<and> b' = b then None else get_position s a' b')))"
  using close_position_Done [OF assms, of now pos]
  by (simp add: check_position_exit_def Let_def)

lemma check_order_fill_filled:
  assumes "get_order s a b = Some x"
    and "order_type ord = ''MARKET'' \<and> fp = cd_open cd \<or>
         order_type ord \<noteq> ''MARKET'' \<and> sig_price ord = Some fp \<and>
           cd_low cd \<le> fp \<and> fp \<le> cd_high cd"
  shows "\<exists>s'. check_order_fill s a b ord cd = Done s' \<and>
           get_order s' a b = None \<and>
           (\<exists>pos. get_position s' a b = Some pos \<and> pos_entry_price pos = fp \<and>
                  pos_last_close pos = None) \<and>
           (\<forall>a' b'. \<not> (a' = a \<and> b' = b) \<longrightarrow>
              get_order s' a' b' = get_order s a' b' \<and>
              get_position s' a' b' = get_position s a' b')"
proof -
  from assms(1) obtain d' where d': "slot_pop (orders s) a b = Some d'"
    unfolding get_order_def by (rule slot_pop_total)
  from assms(2) show ?thesis
  proof
    assume "order_type ord = ''MARKET'' \<and> fp = cd_open cd"
    then show ?thesis
      using slot_get_pop [OF d']
      by (simp add: check_order_fill_def Let_def d' get_order_def get_position_def slot_get_set)
  next
    assume "order_type ord \<noteq> ''MARKET'' \<and> sig_price ord = Some fp \<and>
           cd_low cd \<le> fp \<and> fp \<le> cd_high cd"
    then show ?thesis
      using slot_get_pop [OF d']
      by (simp add: check_order_fill_def Let_def d' get_order_def get_position_def slot_get_set)
  qed
qed

lemma check_order_fill_not_filled:
  assumes "order_type ord \<noteq> ''MARKET''"
  shows "sig_price ord = None \<Longrightarrow> check_order_fill s a b ord cd = Raised TypeError s"
    and "sig_price ord = Some p \<Longrightarrow> \<not> (cd_low cd \<le> p \<and> p \<le> cd_high cd) \<Longrightarrow>
           check_order_fill s a b ord cd = Done s"
  using assms by (auto simp add: check_order_fill_def Let_def)

lemma check_order_fill_cases:
  assumes "get_order s a b = Some x"
  shows "check_order_fill s a b ord cd = Done s \<or>
         check_order_fill s a b ord cd = Raised TypeError s \<or>
         (\<exists>s'. check_order_fill s a b ord cd = Done s' \<and>
           get_order s' a b = None \<and>
           (\<exists>pos. get_position s' a b = Some pos \<and> pos_last_close pos = None) \<and>
           (\<forall>a' b'. \<not> (a' = a \<and> b' = b) \<longrightarrow>
              get_order s' a' b' = get_order s a' b' \<and>
              get_position s' a' b' = get_position s a' b'))"
proof (cases "order_type ord = ''MARKET''")
  case True
  from check_order_fill_filled [OF assms, of ord "cd_open cd" cd] True
  show ?thesis by blast
next
  case False
  show ?thesis
  proof (cases "sig_price ord")
    case None
    with check_order_fill_not_filled(1) [OF False] show ?thesis by simp
  next
    case (Some p)
    show ?thesis
    proof (cases "cd_low cd \<le> p \<and> p \<le> cd_high cd")
      case True
      from check_order_fill_filled [OF assms, of ord p cd] False Some True
      show ?thesis by blast
    next
      case no: False
      from check_order_fill_not_filled(2) [OF False Some no] show ?thesis by simp
    qed
  qed
qed

section \<open>What one event does to the slots\<close>


lemma process_signal_slots:
  "(startswith (sig_action data) ''OPEN'' \<and>
      (\<exists>s'. process_signal now s data = Done s' \<and> positions s' = positions s \<and>
         (\<forall>a b. \<not> (a = sig_strategy_id data \<and> b = sig_symbol data) \<longrightarrow>
                get_order s' a b = get_order s a b))) \<or>
   (\<not> startswith (sig_action data) ''OPEN'' \<and>
      (process_signal now s data = Done s \<or>
       (\<exists>s'. process_signal now s data = Done s' \<and> orders s' = orders s \<and>
         (\<forall>a b. get_position s' a b =
                  (if a = sig_strategy_id data \<and> b = sig_symbol data then None
                   else get_position s a b)))))"
proof (cases "startswith (sig_action data) ''OPEN''")
  case True
  then show ?thesis
    by (simp add: process_signal_def Let_def get_order_add_order_other)
next
  case False
  show ?thesis
  proof (cases "get_position s (sig_strategy_id data) (sig_symbol data)")
    case None
    with False show ?thesis by (simp add: process_signal_def Let_def)
  next
    case (Some pos)
    from close_position_Done [OF Some, of now pos None "''SIGNAL''" None] False Some
    show ?thesis by (auto simp add: process_signal_def Let_def)
  qed
qed

lemma process_candle_slots:
  "\<exists>s'. state_of (process_candle now s cd) = s' \<and>
     (\<forall>a b. \<not> (a = cd_strategy_id cd \<and> b = cd_symbol cd) \<longrightarrow>
        get_order s' a b = get_order s a b \<and> get_position s' a b = get_position s a b) \<and>
     (get_order s' (cd_strategy_id cd) (cd_symbol cd) = None \<and>
        (\<forall>p. get_position s' (cd_strategy_id cd) (cd_symbol cd) = Some p \<longrightarrow>
           pos_last_close p = None \<or>
           get_position s (cd_strategy_id cd) (cd_symbol cd) = Some p)
      \<or>
      get_order s' (cd_strategy_id cd) (cd_symbol cd) =
        get_order s (cd_strategy_id cd) (cd_symbol cd) \<and>
        (get_position s' (cd_strategy_id cd) (cd_symbol cd) = None \<or>
         get_position s' (cd_strategy_id cd) (cd_symbol cd) =
           get_position s (cd_strategy_id cd) (cd_symbol cd)))"
proof -
  let ?a = "cd_strategy_id cd" and ?b = "cd_symbol cd"
  have exit_step: "\<exists>s'. state_of (case get_position s1 ?a ?b of None \<Rightarrow> Done s1
                      | Some pos \<Rightarrow> check_position_exit now s1 ?a ?b pos cd) = s' \<and>
        orders s' = orders s1 \<and>
        (\<forall>a b. \<not> (a = ?a \<and> b = ?b) \<longrightarrow> get_position s' a b = get_position s1 a b) \<and>
        (get_position s' ?a ?b = None \<or> get_position s' ?a ?b = get_position s1 ?a ?b)"
    for s1
  proof (cases "get_position s1 ?a ?b")
    case None
    then show ?thesis by (simp add: state_of_def)
  next
    case (Some pos)
    from check_position_exit_cases [OF Some, of now pos cd] Some
    show ?thesis by (auto simp add: state_of_def)
  qed
  show ?thesis
  proof (cases "get_order s ?a ?b")
    case None
    with exit_step [of s] show ?thesis
      by (auto simp add: process_candle_def Let_def get_order_def)
  next
    case (Some ord)
    from check_order_fill_cases [OF Some, of ord cd]
    consider "check_order_fill s ?a ?b ord cd = Done s"
      | "check_order_fill s ?a ?b ord cd = Raised TypeError s"
      | s1 pos where "check_order_fill s ?a ?b ord cd = Done s1" "get_order s1 ?a ?b = None"
          "get_position s1 ?a ?b = Some pos" "pos_last_close pos = None"
          "\<forall>a' b'. \<not> (a' = ?a \<and> b' = ?b) \<longrightarrow>
              get_order s1 a' b' = get_order s a' b' \<and>
              get_position s1 a' b' = get_position s a' b'"
      by blast
    then show ?thesis
    proof cases
      case 1
      with Some exit_step [of s] show ?thesis
        by (auto simp add: process_candle_def Let_def get_order_def)
    next
      case 2
      with Some show ?thesis by (simp add: process_candle_def Let_def state_of_def)
    next
      case 3
      from exit_step [of s1] obtain s' where s':
        "state_of (case get_position s1 ?a ?b of None \<Rightarrow> Done s1
            | Some pos \<Rightarrow> check_position_exit now s1 ?a ?b pos cd) = s'"
        "orders s' = orders s1"
        "\<forall>a b. \<not> (a = ?a \<and> b = ?b) \<longrightarrow> get_position s' a b = get_position s1 a b"
        "get_position s' ?a ?b = None \<or> get_position s' ?a ?b = get_position s1 ?a ?b"
        by blast
      from Some 3(1) s'(1) have res: "state_of (process_candle now s cd) = s'"
        by (simp add: process_candle_def Let_def)
      from s'(2) have ord_eq: "get_order s' a b = get_order s1 a b" for a b
        by (simp add: get_order_def)
      from res ord_eq s'(3,4) 3(2,3,4,5) show ?thesis by auto
    qed
  qed
qed

lemma update_tp_sl_slots:
  "\<exists>s'. update_tp_sl s data = Done s' \<and> orders s' = orders s \<and>
     (\<forall>a b. (get_position s' a b = None \<longleftrightarrow> get_position s a b = None) \<and>
            (\<forall>p'. get_position s' a b = Some p' \<longrightarrow>
               (\<exists>p. get_position s a b = Some p \<and> pos_last_close p' = pos_last_close p)))"
proof (cases "get_position s (req_strategy_id data) (req_symbol data)")
  case None
  then show ?thesis by (simp add: update_tp_sl_def Let_def)
next
  case (Some pos)
  then show ?thesis
    by (cases "req_stop_loss data"; cases "req_take_profit data")
       (auto simp add: update_tp_sl_def Let_def get_position_def slot_get_set)
qed

section \<open>The worked scenario, evaluated\<close>

lemmas engine_defs =
  handle_event_def process_signal_def process_candle_def update_tp_sl_def
  check_order_fill_def check_position_exit_def close_position_def add_order_def
  get_order_def get_position_def slot_get_def slot_set_def slot_pop_def
  state_of_def startswith_def truthy_def or_else_def Let_def init_def

lemma demo_pending_slots:
  "get_order demo_pending a b = (if a = ''S'' \<and> b = ''X'' then Some demo_market_order else None)"
  "get_position demo_pending a b = None"
  by (simp_all add: demo_pending_def demo_open_long_def demo_market_order_def engine_defs)


lemma demo_long_held_slots:
  "get_position demo_long_held a b =
     (if a = ''S'' \<and> b = ''X'' then Some demo_long_position else None)"
  "get_order demo_long_held a b = None"
  by (simp_all add: demo_long_held_def demo_pending_def demo_open_long_def demo_tick_def
      demo_long_position_def engine_defs)

section \<open>Open signals on an occupied slot\<close>

text \<open>
  C3, as stated: an open signal for a slot that already holds a pending order or a
  position is a no-op. It fails on the worked scenario: the slot \<open>(S, X)\<close> holds the
  long position, the same open signal arrives again, and the engine does not end where
  it started (it has stored a new pending order beside the position).
\<close>

theorem open_signal_occupied_slot_counterexample:
  "startswith (sig_action demo_open_long) ''OPEN'' \<and>
   get_position demo_long_held (sig_strategy_id demo_open_long) (sig_symbol demo_open_long)
     = Some demo_long_position \<and>
   process_signal 2 demo_long_held demo_open_long \<noteq> Done demo_long_held"
proof -
  have "get_order (state_of (process_signal 2 demo_long_held demo_open_long)) ''S'' ''X'' \<noteq> None"
    by (simp add: process_signal_def demo_open_long_def startswith_def truthy_def Let_def
        state_of_def add_order_def get_order_def slot_get_set)
  then have "process_signal 2 demo_long_held demo_open_long \<noteq> Done demo_long_held"
    by (auto simp add: state_of_def demo_long_held_slots)
  then show ?thesis
    by (simp add: demo_long_held_slots) (simp add: demo_open_long_def startswith_def)
qed

text \<open>
  C3, amended: whatever the slot holds, an open signal is stored as the slot's pending
  order (of type LIMIT when it carries a truthy price, MARKET otherwise), replacing the
  pending order the slot may have held, and is written to the mirror; the positions of
  all slots and the pending orders of all other slots are unchanged, and nothing is
  saved to the ledger or published.
\<close>

theorem open_signal_installs_order:
  assumes "startswith (sig_action data) ''OPEN''"
  shows "\<exists>s' ord.
     process_signal now s data = Done s' \<and>
     get_order s' (sig_strategy_id data) (sig_symbol data) = Some ord \<and>
     signal.truncate ord = data \<and>
     order_type ord = (if truthy (sig_price data) then ''LIMIT'' else ''MARKET'') \<and>
     (\<forall>a b. \<not> (a = sig_strategy_id data \<and> b = sig_symbol data) \<longrightarrow>
            get_order s' a b = get_order s a b) \<and>
     positions s' = positions s \<and>
     new_effects s s' =
       [MemSet ''orders'' (sig_strategy_id data) (sig_symbol data),
        MirrorSet (''strategy:'' @ sig_strategy_id data @ '':orders'') (sig_symbol data)
          (OrderJson ord)]"
  using assms
  by (cases "truthy (sig_price data)")
     (simp_all add: process_signal_def Let_def get_order_add_order_other,
      simp_all add: add_order_def Let_def get_order_def slot_get_set signal.truncate_def
        new_effects_def)

theorem open_signal_installs_order_witness:
  "startswith (sig_action demo_open_long) ''OPEN'' \<and>
   get_position demo_long_held ''S'' ''X'' = Some demo_long_position \<and>
   (\<exists>s' ord.
     process_signal 2 demo_long_held demo_open_long = Done s' \<and>
     get_order s' ''S'' ''X'' = Some ord \<and>
     signal.truncate ord = demo_open_long \<and>
     order_type ord = ''MARKET'' \<and>
     get_position s' ''S'' ''X'' = Some demo_long_position)"
proof -
  have h: "startswith (sig_action demo_open_long) ''OPEN''"
    by (simp add: demo_open_long_def startswith_def)
  from open_signal_installs_order [OF h, of 2 demo_long_held]
  obtain s' ord where
    "process_signal 2 demo_long_held demo_open_long = Done s'"
    "get_order s' ''S'' ''X'' = Some ord" "signal.truncate ord = demo_open_long"
    "order_type ord = ''MARKET''" "positions s' = positions demo_long_held"
    by (auto simp add: demo_open_long_def truthy_def)
  moreover from this have "get_position s' ''S'' ''X'' = get_position demo_long_held ''S'' ''X''"
    by (simp add: get_position_def)
  ultimately show ?thesis using h by (simp add: demo_long_held_slots)
qed

section \<open>Order fills\<close>





section \<open>Exit triggers\<close>

text \<open>
  C6, as stated: a position with both bounds set closes by SL when one tick meets both
  conditions. It fails for a stop of \<open>0\<close>, which \<^verbatim>\<open>if sl and ...\<close> reads as unset: a
  short with stop 0 and target 90 meets both conditions on a tick ranging from 80 to 100
  (high \<open>\<ge>\<close> stop, low \<open>\<le>\<close> target), and the engine closes it by TP at 90.
\<close>

theorem zero_stop_tie_counterexample:
  "pos_stop_loss demo_short_zero_stop = Some 0 \<and>
   pos_take_profit demo_short_zero_stop = Some 90 \<and>
   pos_side demo_short_zero_stop = ''SHORT'' \<and>
   cd_high demo_low_tick \<ge> 0 \<and> cd_low demo_low_tick \<le> 90 \<and>
   get_position demo_short_zero_held ''S'' ''X'' = Some demo_short_zero_stop \<and>
   new_effects demo_short_zero_held
     (state_of (check_position_exit 3 demo_short_zero_held ''S'' ''X''
        demo_short_zero_stop demo_low_tick)) ! 0 =
     SaveTrade \<lparr>tr_strategy_id = ''S'', tr_symbol = ''X'', tr_side = ''SHORT'',
       tr_entry_price = 100, tr_exit_price = 90, tr_qty = 1, tr_pnl = 10,
       tr_entry_time = 1, tr_exit_time = 2, tr_reason = ''TP''\<rparr>"
  by (simp add: demo_short_zero_held_def demo_short_zero_stop_def demo_low_tick_def demo_tick_def
      new_effects_def engine_defs)

text \<open>
  C6, amended: for a position held in its slot whose stop is set to a value other than
  zero and whose target is set, a processed tick on which no pending order of the slot
  fills (the slot has no pending order, or it has a limit order whose price lies outside
  the tick's range) and which meets both the SL and the TP condition (for a LONG:
  \<open>low \<le> stop\<close> and \<open>high \<ge> target\<close>; mirrored for the other side) closes the
  position with reason SL at an exit price equal to the stop: the tick processing and
  its exit check end in the same state, the slot is empty, and the trade row and the
  trade-terminal notice carry SL and the stop. (A pending order that fills on the tick
  replaces the held position before the exit check looks at the slot.)
\<close>

theorem stop_loss_wins_tie:
  assumes "get_position s (cd_strategy_id cd) (cd_symbol cd) = Some pos"
    and "get_order s (cd_strategy_id cd) (cd_symbol cd) = None \<or>
         (\<exists>ord p. get_order s (cd_strategy_id cd) (cd_symbol cd) = Some ord \<and>
            order_type ord \<noteq> ''MARKET'' \<and> sig_price ord = Some p \<and>
            \<not> (cd_low cd \<le> p \<and> p \<le> cd_high cd))"
    and "pos_stop_loss pos = Some sl" and "sl \<noteq> 0"
    and "pos_take_profit pos = Some tp"
    and "pos_side pos = ''LONG'' \<and> cd_low cd \<le> sl \<and> cd_high cd \<ge> tp \<or>
         pos_side pos \<noteq> ''LONG'' \<and> cd_high cd \<ge> sl \<and> cd_low cd \<le> tp"
  shows "\<exists>s' row tt flat.
     process_candle now s cd = Done s' \<and>
     check_position_exit now s (cd_strategy_id cd) (cd_symbol cd) pos cd = Done s' \<and>
     get_position s' (cd_strategy_id cd) (cd_symbol cd) = None \<and>
     new_effects s s' =
       [SaveTrade row, MemPop ''positions'' (cd_strategy_id cd) (cd_symbol cd),
        MirrorDel (''strategy:'' @ cd_strategy_id cd @ '':positions'') (cd_symbol cd),
        Publish (TradeTerminalEvent tt), Publish (PositionStateEvent flat)] \<and>
     tr_reason row = ''SL'' \<and> tr_exit_price row = sl \<and>
     tt_trigger_type tt = ''SL'' \<and> tt_exit_price tt = sl"
proof -
  let ?a = "cd_strategy_id cd" and ?b = "cd_symbol cd"
  from assms(1) obtain d' where d': "slot_pop (positions s) ?a ?b = Some d'"
    unfolding get_position_def by (rule slot_pop_total)
  have exit_check: "\<exists>s' row tt flat.
     check_position_exit now s ?a ?b pos cd = Done s' \<and>
     get_position s' ?a ?b = None \<and>
     new_effects s s' =
       [SaveTrade row, MemPop ''positions'' ?a ?b,
        MirrorDel (''strategy:'' @ ?a @ '':positions'') ?b,
        Publish (TradeTerminalEvent tt), Publish (PositionStateEvent flat)] \<and>
     tr_reason row = ''SL'' \<and> tr_exit_price row = sl \<and>
     tt_trigger_type tt = ''SL'' \<and> tt_exit_price tt = sl"
    using assms(6)
  proof
    assume "pos_side pos = ''LONG'' \<and> cd_low cd \<le> sl \<and> cd_high cd \<ge> tp"
    then show ?thesis
      using assms(3,4,5) slot_get_pop [OF d', of ?a ?b]
      by (simp add: check_position_exit_def close_position_def Let_def d' truthy_def
          or_else_def get_position_def)
  next
    assume "pos_side pos \<noteq> ''LONG'' \<and> cd_high cd \<ge> sl \<and> cd_low cd \<le> tp"
    then show ?thesis
      using assms(3,4,5) slot_get_pop [OF d', of ?a ?b]
      by (simp add: check_position_exit_def close_position_def Let_def d' truthy_def
          or_else_def get_position_def)
  qed
  have tick: "process_candle now s cd = check_position_exit now s ?a ?b pos cd"
    using assms(2)
  proof
    assume "get_order s ?a ?b = None"
    with assms(1) show ?thesis by (simp add: process_candle_def Let_def)
  next
    assume "\<exists>ord p. get_order s ?a ?b = Some ord \<and> order_type ord \<noteq> ''MARKET'' \<and>
       sig_price ord = Some p \<and> \<not> (cd_low cd \<le> p \<and> p \<le> cd_high cd)"
    then obtain ord p where o: "get_order s ?a ?b = Some ord" "order_type ord \<noteq> ''MARKET''"
      "sig_price ord = Some p" "\<not> (cd_low cd \<le> p \<and> p \<le> cd_high cd)"
      by blast
    from check_order_fill_not_filled(2) [OF o(2,3,4)]
    have "check_order_fill s ?a ?b ord cd = Done s" .
    with o(1) assms(1) show ?thesis by (simp add: process_candle_def Let_def)
  qed
  from exit_check tick show ?thesis by simp
qed

theorem stop_loss_wins_tie_witness:
  "get_position demo_long_held (cd_strategy_id demo_wide_tick) (cd_symbol demo_wide_tick)
     = Some demo_long_position \<and>
   get_order demo_long_held (cd_strategy_id demo_wide_tick) (cd_symbol demo_wide_tick) = None \<and>
   pos_stop_loss demo_long_position = Some 95 \<and> (95 :: num) \<noteq> 0 \<and>
   pos_take_profit demo_long_position = Some 110 \<and>
   pos_side demo_long_position = ''LONG'' \<and>
   cd_low demo_wide_tick \<le> 95 \<and> cd_high demo_wide_tick \<ge> 110 \<and>
   (\<exists>s' row tt flat.
     process_candle 2 demo_long_held demo_wide_tick = Done s' \<and>
     get_position s' ''S'' ''X'' = None \<and>
     new_effects demo_long_held s' =
       [SaveTrade row, MemPop ''positions'' ''S'' ''X'',
        MirrorDel (''strategy:'' @ ''S'' @ '':positions'') ''X'',
        Publish (TradeTerminalEvent tt), Publish (PositionStateEvent flat)] \<and>
     tr_reason row = ''SL'' \<and> tr_exit_price row = 95 \<and>
     tt_trigger_type tt = ''SL'' \<and> tt_exit_price tt = 95)"
proof -
  have cd: "cd_strategy_id demo_wide_tick = ''S''" "cd_symbol demo_wide_tick = ''X''"
    by (simp_all add: demo_wide_tick_def)
  have h1: "get_position demo_long_held (cd_strategy_id demo_wide_tick)
      (cd_symbol demo_wide_tick) = Some demo_long_position"
    by (simp add: demo_long_held_slots cd)
  have none: "get_order demo_long_held (cd_strategy_id demo_wide_tick)
      (cd_symbol demo_wide_tick) = None"
    by (simp add: demo_long_held_slots)
  then have h2: "get_order demo_long_held (cd_strategy_id demo_wide_tick)
      (cd_symbol demo_wide_tick) = None \<or>
         (\<exists>ord p. get_order demo_long_held (cd_strategy_id demo_wide_tick)
              (cd_symbol demo_wide_tick) = Some ord \<and>
            order_type ord \<noteq> ''MARKET'' \<and> sig_price ord = Some p \<and>
            \<not> (cd_low demo_wide_tick \<le> p \<and> p \<le> cd_high demo_wide_tick))"
    by (rule disjI1)
  have h3: "pos_stop_loss demo_long_position = Some 95"
    and h5: "pos_take_profit demo_long_position = Some 110"
    and side: "pos_side demo_long_position = ''LONG''"
    by (simp_all add: demo_long_position_def)
  have h4: "(95 :: num) \<noteq> 0" by simp
  have range: "cd_low demo_wide_tick \<le> 95" "cd_high demo_wide_tick \<ge> 110"
    by (simp_all add: demo_wide_tick_def)
  have h6: "pos_side demo_long_position = ''LONG'' \<and> cd_low demo_wide_tick \<le> 95 \<and>
              cd_high demo_wide_tick \<ge> 110 \<or>
            pos_side demo_long_position \<noteq> ''LONG'' \<and> cd_high demo_wide_tick \<ge> 95 \<and>
              cd_low demo_wide_tick \<le> 110"
    using side range by simp
  from stop_loss_wins_tie [OF h1 h2 h3 h4 h5 h6, of 2]
  have "\<exists>s' row tt flat.
     process_candle 2 demo_long_held demo_wide_tick = Done s' \<and>
     get_position s' ''S'' ''X'' = None \<and>
     new_effects demo_long_held s' =
       [SaveTrade row, MemPop ''positions'' ''S'' ''X'',
        MirrorDel (''strategy:'' @ ''S'' @ '':positions'') ''X'',
        Publish (TradeTerminalEvent tt), Publish (PositionStateEvent flat)] \<and>
     tr_reason row = ''SL'' \<and> tr_exit_price row = 95 \<and>
     tt_trigger_type tt = ''SL'' \<and> tt_exit_price tt = 95"
    unfolding cd by blast
  with h1 none h3 h4 h5 side range show ?thesis by simp
qed

section \<open>Replaying a terminal tick\<close>

lemma check_order_fill_unfilled_anywhere:
  assumes "get_order s a b = Some x" and "check_order_fill s a b ord cd = Done s"
  shows "check_order_fill s' a b ord cd = Done s'"
proof (cases "order_type ord = ''MARKET''")
  case True
  from check_order_fill_filled [OF assms(1), of ord "cd_open cd" cd] True assms
  show ?thesis by auto
next
  case False
  show ?thesis
  proof (cases "sig_price ord")
    case None
    with check_order_fill_not_filled(1) [OF False, of s a b cd] assms(2) show ?thesis by simp
  next
    case (Some p)
    show ?thesis
    proof (cases "cd_low cd \<le> p \<and> p \<le> cd_high cd")
      case True
      from check_order_fill_filled [OF assms(1), of ord p cd] False Some True assms
      show ?thesis by auto
    next
      case no: False
      from check_order_fill_not_filled(2) [OF False Some no] show ?thesis .
    qed
  qed
qed

text \<open>
  C7: when a tick has been processed and the slot holds no position afterwards (as after
  the tick closed it), processing the same tick again returns the engine unchanged: no
  row is saved, nothing is written or published, and the dictionaries stay as they are.
\<close>

theorem replay_terminal_tick_noop:
  assumes "process_candle now s cd = Done s1"
    and "get_position s1 (cd_strategy_id cd) (cd_symbol cd) = None"
  shows "process_candle now' s1 cd = Done s1"
proof -
  let ?a = "cd_strategy_id cd" and ?b = "cd_symbol cd"
  show ?thesis
  proof (cases "get_order s1 ?a ?b")
    case None
    with assms(2) show ?thesis by (simp add: process_candle_def Let_def)
  next
    case (Some o1)
    have "check_order_fill s1 ?a ?b o1 cd = Done s1"
    proof (cases "get_order s ?a ?b")
      case None
      show ?thesis
      proof (cases "get_position s ?a ?b")
        case no_pos: None
        with None assms(1) Some show ?thesis by (simp add: process_candle_def Let_def)
      next
        case (Some q)
        from check_position_exit_cases [OF Some, of now q cd] None Some assms(1) \<open>get_order s1 ?a ?b = Some o1\<close>
        show ?thesis by (auto simp add: process_candle_def Let_def get_order_def)
      qed
    next
      case (Some ord)
      from check_order_fill_cases [OF Some, of ord cd]
      consider "check_order_fill s ?a ?b ord cd = Done s"
        | "check_order_fill s ?a ?b ord cd = Raised TypeError s"
        | s2 pos where "check_order_fill s ?a ?b ord cd = Done s2" "get_order s2 ?a ?b = None"
            "get_position s2 ?a ?b = Some pos"
        by blast
      then show ?thesis
      proof cases
        case 1
        have same: "orders s1 = orders s"
        proof (cases "get_position s ?a ?b")
          case None
          with 1 Some assms(1) show ?thesis by (simp add: process_candle_def Let_def)
        next
          case q: (Some q)
          from check_position_exit_cases [OF q, of now q cd] 1 Some q assms(1)
          show ?thesis by (auto simp add: process_candle_def Let_def)
        qed
        with Some \<open>get_order s1 ?a ?b = Some o1\<close> have "o1 = ord"
          by (simp add: get_order_def)
        with check_order_fill_unfilled_anywhere [OF Some 1] show ?thesis by simp
      next
        case 2
        with Some assms(1) show ?thesis by (simp add: process_candle_def Let_def)
      next
        case 3
        from check_position_exit_cases [OF 3(3), of now pos cd] 3 Some assms(1)
          \<open>get_order s1 ?a ?b = Some o1\<close>
        show ?thesis by (auto simp add: process_candle_def Let_def get_order_def)
      qed
    qed
    with Some assms(2) show ?thesis by (simp add: process_candle_def Let_def)
  qed
qed

theorem replay_terminal_tick_noop_witness:
  "get_position demo_long_held ''S'' ''X'' = Some demo_long_position \<and>
   process_candle 2 demo_long_held demo_wide_tick = Done demo_closed \<and>
   get_position demo_closed (cd_strategy_id demo_wide_tick) (cd_symbol demo_wide_tick) = None \<and>
   process_candle 3 demo_closed demo_wide_tick = Done demo_closed"
proof -
  have h1: "process_candle 2 demo_long_held demo_wide_tick = Done demo_closed"
    by (simp add: demo_closed_def demo_long_held_def demo_pending_def demo_open_long_def
        demo_tick_def demo_wide_tick_def engine_defs)
  have h2: "get_position demo_closed (cd_strategy_id demo_wide_tick) (cd_symbol demo_wide_tick)
      = None"
    by (simp add: demo_closed_def demo_long_held_def demo_pending_def demo_open_long_def
        demo_tick_def demo_wide_tick_def engine_defs)
  from replay_terminal_tick_noop [OF h1 h2, of 3] h1 h2 show ?thesis
    by (simp add: demo_long_held_slots)
qed

section \<open>TP/SL updates\<close>

text \<open>
  C8: a TP/SL update request for a slot without a position returns the engine unchanged.
  For a slot with a position, the stored position afterwards is the old one with
  \<open>stop_loss\<close> replaced only if the request has that key and \<open>take_profit\<close> replaced
  only if the request has that key (a present key holding null does store null); side,
  size, entry price and entry time are the old ones; the positions of the other slots
  and all pending orders are unchanged; the handler writes the position dictionary once
  per key present, publishes a position-state notice with the resulting bounds and
  writes the resulting position to the mirror; nothing goes to the ledger.
\<close>

theorem update_tp_sl_frame:
  "(get_position s (req_strategy_id data) (req_symbol data) = None \<longrightarrow>
      update_tp_sl s data = Done s) \<and>
   (\<forall>pos. get_position s (req_strategy_id data) (req_symbol data) = Some pos \<longrightarrow>
      (\<exists>s' pos'.
         update_tp_sl s data = Done s' \<and>
         get_position s' (req_strategy_id data) (req_symbol data) = Some pos' \<and>
         pos' = pos\<lparr>pos_stop_loss :=
                      (case req_stop_loss data of None \<Rightarrow> pos_stop_loss pos | Some v \<Rightarrow> v),
                    pos_take_profit :=
                      (case req_take_profit data of None \<Rightarrow> pos_take_profit pos | Some v \<Rightarrow> v)\<rparr> \<and>
         pos_side pos' = pos_side pos \<and> pos_size pos' = pos_size pos \<and>
         pos_entry_price pos' = pos_entry_price pos \<and>
         pos_entry_time pos' = pos_entry_time pos \<and>
         (\<forall>a b. \<not> (a = req_strategy_id data \<and> b = req_symbol data) \<longrightarrow>
                get_position s' a b = get_position s a b) \<and>
         orders s' = orders s \<and>
         new_effects s s' =
           (case req_stop_loss data of None \<Rightarrow> []
            | Some v \<Rightarrow> [MemSet ''positions'' (req_strategy_id data) (req_symbol data)]) @
           (case req_take_profit data of None \<Rightarrow> []
            | Some v \<Rightarrow> [MemSet ''positions'' (req_strategy_id data) (req_symbol data)]) @
           [Publish (PositionStateEvent
              \<lparr>ps_strategy_id = req_strategy_id data, ps_symbol = req_symbol data,
               ps_side = pos_side pos, ps_size = pos_size pos,
               ps_entry_price = pos_entry_price pos, ps_unrealised_pnl = 0,
               ps_stop_loss = pos_stop_loss pos', ps_take_profit = pos_take_profit pos'\<rparr>),
            MirrorSet (''strategy:'' @ req_strategy_id data @ '':positions'') (req_symbol data)
              (PositionJson pos')]))"
proof (intro conjI allI impI)
  assume "get_position s (req_strategy_id data) (req_symbol data) = None"
  then show "update_tp_sl s data = Done s"
    by (simp add: update_tp_sl_def Let_def)
next
  fix pos
  assume pos: "get_position s (req_strategy_id data) (req_symbol data) = Some pos"
  show "\<exists>s' pos'.
         update_tp_sl s data = Done s' \<and>
         get_position s' (req_strategy_id data) (req_symbol data) = Some pos' \<and>
         pos' = pos\<lparr>pos_stop_loss :=
                      (case req_stop_loss data of None \<Rightarrow> pos_stop_loss pos | Some v \<Rightarrow> v),
                    pos_take_profit :=
                      (case req_take_profit data of None \<Rightarrow> pos_take_profit pos | Some v \<Rightarrow> v)\<rparr> \<and>
         pos_side pos' = pos_side pos \<and> pos_size pos' = pos_size pos \<and>
         pos_entry_price pos' = pos_entry_price pos \<and>
         pos_entry_time pos' = pos_entry_time pos \<and>
         (\<forall>a b. \<not> (a = req_strategy_id data \<and> b = req_symbol data) \<longrightarrow>
                get_position s' a b = get_position s a b) \<and>
         orders s' = orders s \<and>
         new_effects s s' =
           (case req_stop_loss data of None \<Rightarrow> []
            | Some v \<Rightarrow> [MemSet ''positions'' (req_strategy_id data) (req_symbol data)]) @
           (case req_take_profit data of None \<Rightarrow> []
            | Some v \<Rightarrow> [MemSet ''positions'' (req_strategy_id data) (req_symbol data)]) @
           [Publish (PositionStateEvent
              \<lparr>ps_strategy_id = req_strategy_id data, ps_symbol = req_symbol data,
               ps_side = pos_side pos, ps_size = pos_size pos,
               ps_entry_price = pos_entry_price pos, ps_unrealised_pnl = 0,
               ps_stop_loss = pos_stop_loss pos', ps_take_profit = pos_take_profit pos'\<rparr>),
            MirrorSet (''strategy:'' @ req_strategy_id data @ '':positions'') (req_symbol data)
              (PositionJson pos')]"
  proof (cases "req_stop_loss data"; cases "req_take_profit data")
    assume "req_stop_loss data = None" "req_take_profit data = None"
    with pos show ?thesis
      by (auto simp add: update_tp_sl_def Let_def new_effects_def get_position_def)
  next
    fix v assume "req_stop_loss data = None" "req_take_profit data = Some v"
    with pos show ?thesis
      by (auto simp add: update_tp_sl_def Let_def new_effects_def get_position_def slot_get_set)
  next
    fix v assume "req_stop_loss data = Some v" "req_take_profit data = None"
    with pos show ?thesis
      by (auto simp add: update_tp_sl_def Let_def new_effects_def get_position_def slot_get_set)
  next
    fix v w assume "req_stop_loss data = Some v" "req_take_profit data = Some w"
    with pos show ?thesis
      by (auto simp add: update_tp_sl_def Let_def new_effects_def get_position_def slot_get_set)
  qed
qed

theorem update_tp_sl_frame_witness:
  "get_position demo_long_held (req_strategy_id demo_target_request)
     (req_symbol demo_target_request) = Some demo_long_position \<and>
   (\<exists>s'. update_tp_sl demo_long_held demo_target_request = Done s' \<and>
      get_position s' ''S'' ''X'' =
        Some (demo_long_position\<lparr>pos_take_profit := Some 120\<rparr>) \<and>
      pos_stop_loss (demo_long_position\<lparr>pos_take_profit := Some 120\<rparr>) = Some 95) \<and>
   get_position demo_closed (req_strategy_id demo_target_request)
     (req_symbol demo_target_request) = None \<and>
   update_tp_sl demo_closed demo_target_request = Done demo_closed"
proof -
  have h1: "get_position demo_long_held (req_strategy_id demo_target_request)
     (req_symbol demo_target_request) = Some demo_long_position"
    by (simp add: demo_long_held_slots demo_target_request_def)
  have h2: "get_position demo_closed (req_strategy_id demo_target_request)
     (req_symbol demo_target_request) = None"
    by (simp add: demo_closed_def demo_long_held_def demo_pending_def demo_open_long_def
        demo_tick_def demo_wide_tick_def demo_target_request_def engine_defs)
  have req: "req_strategy_id demo_target_request = ''S''" "req_symbol demo_target_request = ''X''"
    "req_stop_loss demo_target_request = None"
    "req_take_profit demo_target_request = Some (Some 120)"
    by (simp_all add: demo_target_request_def)
  from update_tp_sl_frame [of demo_long_held demo_target_request] h1
  obtain s' where "update_tp_sl demo_long_held demo_target_request = Done s'"
    "get_position s' ''S'' ''X'' = Some (demo_long_position\<lparr>pos_take_profit := Some 120\<rparr>)"
    unfolding req by auto
  moreover have "pos_stop_loss (demo_long_position\<lparr>pos_take_profit := Some 120\<rparr>) = Some 95"
    by (simp add: demo_long_position_def)
  moreover from update_tp_sl_frame [of demo_closed demo_target_request] h2
  have "update_tp_sl demo_closed demo_target_request = Done demo_closed" by blast
  ultimately show ?thesis using h1 h2 by blast
qed

section \<open>Pending order and position in one slot\<close>

lemma handle_event_exclusive:
  assumes excl: "\<forall>a b. get_order s a b = None \<or> get_position s a b = None"
    and adm: "case ev of
         StrategySignalEvent data \<Rightarrow>
           startswith (sig_action data) ''OPEN'' \<longrightarrow>
             get_position s (sig_strategy_id data) (sig_symbol data) = None
       | _ \<Rightarrow> True"
  shows "get_order (state_of (handle_event now s ev)) a b = None \<or>
         get_position (state_of (handle_event now s ev)) a b = None"
proof (cases ev)
  case (StrategySignalEvent data)
  from process_signal_slots [of data now s] show ?thesis
  proof (elim disjE conjE exE)
    fix s'
    assume "startswith (sig_action data) ''OPEN''"
      and s': "process_signal now s data = Done s'" "positions s' = positions s"
        "\<forall>a b. \<not> (a = sig_strategy_id data \<and> b = sig_symbol data) \<longrightarrow>
                get_order s' a b = get_order s a b"
    with adm StrategySignalEvent
    have free: "get_position s (sig_strategy_id data) (sig_symbol data) = None" by simp
    from s'(2) have pos_eq: "get_position s' a b = get_position s a b"
      by (simp add: get_position_def)
    show ?thesis
    proof (cases "a = sig_strategy_id data \<and> b = sig_symbol data")
      case True
      with free pos_eq s'(1) StrategySignalEvent show ?thesis
        by (simp add: handle_event_def state_of_def)
    next
      case False
      with s'(3) have "get_order s' a b = get_order s a b" by blast
      with pos_eq excl s'(1) StrategySignalEvent show ?thesis
        by (simp add: handle_event_def state_of_def)
    qed
  next
    assume "process_signal now s data = Done s"
    with excl StrategySignalEvent show ?thesis
      by (simp add: handle_event_def state_of_def)
  next
    fix s'
    assume s': "process_signal now s data = Done s'" "orders s' = orders s"
      "\<forall>a b. get_position s' a b =
         (if a = sig_strategy_id data \<and> b = sig_symbol data then None else get_position s a b)"
    from s'(2) have "get_order s' a b = get_order s a b" by (simp add: get_order_def)
    with s'(1,3) excl StrategySignalEvent show ?thesis
      by (auto simp add: handle_event_def state_of_def)
  qed
next
  case (CandleUpdateEvent cd)
  from excl have here: "get_order s (cd_strategy_id cd) (cd_symbol cd) = None \<or>
      get_position s (cd_strategy_id cd) (cd_symbol cd) = None"
    and there: "get_order s a b = None \<or> get_position s a b = None"
    by simp_all
  from process_candle_slots [of now s cd] here there CandleUpdateEvent show ?thesis
    by (cases "a = cd_strategy_id cd \<and> b = cd_symbol cd")
       (auto simp add: handle_event_def)
next
  case (StrategySetTPSLEvent data)
  from update_tp_sl_slots [of s data] obtain s' where
    s': "update_tp_sl s data = Done s'" "orders s' = orders s"
      "\<forall>a b. get_position s' a b = None \<longleftrightarrow> get_position s a b = None"
    by blast
  from s'(2) have "get_order s' a b = get_order s a b" by (simp add: get_order_def)
  with s'(1,3) excl StrategySetTPSLEvent show ?thesis
    by (simp add: handle_event_def state_of_def)
next
  case (OtherEvent t)
  with excl show ?thesis by (simp add: handle_event_def state_of_def)
qed

lemma run_exclusive:
  "(\<forall>a b. get_order s a b = None \<or> get_position s a b = None) \<Longrightarrow>
   no_open_on_position s evs \<Longrightarrow>
   get_order (run s evs) a b = None \<or> get_position (run s evs) a b = None"
proof (induction evs arbitrary: s)
  case Nil
  then show ?case by simp
next
  case (Cons x evs)
  obtain now ev where x: "x = (now, ev)" by (cases x)
  from Cons.prems(2) x have adm: "case ev of
         StrategySignalEvent data \<Rightarrow>
           startswith (sig_action data) ''OPEN'' \<longrightarrow>
             get_position s (sig_strategy_id data) (sig_symbol data) = None
       | _ \<Rightarrow> True"
    and rest: "no_open_on_position (state_of (handle_event now s ev)) evs"
    by simp_all
  have "\<forall>a b. get_order (state_of (handle_event now s ev)) a b = None \<or>
               get_position (state_of (handle_event now s ev)) a b = None"
    by (intro allI) (rule handle_event_exclusive [OF Cons.prems(1) adm])
  from Cons.IH [OF this rest] x show ?case by simp
qed

text \<open>
  C1, as stated: in every reachable state no slot holds both a pending order and a
  position. It fails after three events: the open signal, the tick that fills it, and
  the same open signal again, which is stored beside the position.
\<close>

theorem order_beside_position_counterexample:
  "get_order (run init demo_double_open) ''S'' ''X'' = Some demo_market_order \<and>
   get_position (run init demo_double_open) ''S'' ''X'' = Some demo_long_position"
  by (simp add: demo_double_open_def demo_open_long_def demo_tick_def demo_market_order_def
      demo_long_position_def engine_defs)

text \<open>
  C1, amended: starting from the empty engine, along every sequence of signal, tick,
  TP/SL-update and unknown events in which no open signal is handled while its slot holds
  a position, no slot ever holds both a pending order and a position.
\<close>

theorem order_or_position:
  assumes "no_open_on_position init evs"
  shows "get_order (run init evs) a b = None \<or> get_position (run init evs) a b = None"
proof -
  have "\<forall>a b. get_order init a b = None \<or> get_position init a b = None"
    by (simp add: init_def get_order_def slot_get_def)
  from run_exclusive [OF this assms] show ?thesis .
qed

theorem order_or_position_witness:
  "no_open_on_position init demo_reopen_after_close \<and>
   get_order (run init demo_reopen_after_close) ''S'' ''X'' = Some demo_market_order \<and>
   get_position (run init demo_reopen_after_close) ''S'' ''X'' = None"
proof -
  have h: "no_open_on_position init demo_reopen_after_close"
    by (simp add: demo_reopen_after_close_def demo_open_long_def demo_tick_def
        demo_wide_tick_def engine_defs)
  have o: "get_order (run init demo_reopen_after_close) ''S'' ''X'' = Some demo_market_order"
    by (simp add: demo_reopen_after_close_def demo_open_long_def demo_tick_def
        demo_wide_tick_def demo_market_order_def engine_defs)
  from order_or_position [OF h, of "''S''" "''X''"] h o show ?thesis by simp
qed

section \<open>Signal-driven closes\<close>





section \<open>The trade-terminal notice\<close>

text \<open>
  C10: closing a position held in its slot, whatever the reason passed, publishes a
  trade-terminal notice (followed by the FLAT position notice); its trigger type is the
  reason when the reason is TP or SL and the literal TP otherwise, so a close with
  reason SIGNAL is announced as TP, while the trade row keeps the reason SIGNAL.
\<close>

theorem close_publishes_trade_terminal:
  assumes "get_position s a b = Some q"
  shows "\<exists>s' row tt flat.
     close_position now s a b pos price_override reason timestamp = Done s' \<and>
     new_effects s s' =
       [SaveTrade row, MemPop ''positions'' a b,
        MirrorDel (''strategy:'' @ a @ '':positions'') b,
        Publish (TradeTerminalEvent tt), Publish (PositionStateEvent flat)] \<and>
     tr_reason row = reason \<and>
     tt_trigger_type tt = (if reason = ''TP'' \<or> reason = ''SL'' then reason else ''TP'') \<and>
     (reason = ''SIGNAL'' \<longrightarrow> tt_trigger_type tt = ''TP'') \<and>
     tt_exit_price tt = tr_exit_price row \<and> tt_pnl tt = tr_pnl row \<and>
     tt_realised_pnl tt = tr_pnl row \<and> ps_side flat = ''FLAT''"
proof -
  from assms obtain d' where d': "slot_pop (positions s) a b = Some d'"
    unfolding get_position_def by (rule slot_pop_total)
  show ?thesis
    by (simp add: close_position_def Let_def d')
qed

theorem close_publishes_trade_terminal_witness:
  "get_position demo_long_held ''S'' ''X'' = Some demo_long_position \<and>
   (\<exists>s' tt.
      close_position 5 demo_long_held ''S'' ''X'' demo_long_position None ''SIGNAL'' None = Done s' \<and>
      new_effects demo_long_held s' ! 3 = Publish (TradeTerminalEvent tt) \<and>
      tt_trigger_type tt = ''TP'')"
proof -
  have h: "get_position demo_long_held ''S'' ''X'' = Some demo_long_position"
    by (simp add: demo_long_held_slots)
  from close_publishes_trade_terminal [OF h, of 5 demo_long_position None "''SIGNAL''" None]
  obtain s' row tt flat where
    "close_position 5 demo_long_held ''S'' ''X'' demo_long_position None ''SIGNAL'' None = Done s'"
    "new_effects demo_long_held s' =
       [SaveTrade row, MemPop ''positions'' ''S'' ''X'',
        MirrorDel (''strategy:'' @ ''S'' @ '':positions'') ''X'',
        Publish (TradeTerminalEvent tt), Publish (PositionStateEvent flat)]"
    "tt_trigger_type tt = ''TP''"
    by auto
  with h show ?thesis by auto
qed

section \<open>Order of the effects within a handler\<close>

text \<open>
  C2, as stated: within a fill and within a close the effects come in the order memory,
  ledger, mirror, notice. It fails for both: the fill of the worked scenario publishes
  its notice before it saves the order row, and the close of the worked scenario saves
  the trade row before it removes the position from memory.
\<close>

theorem effect_order_counterexample:
  "\<not> spec_ordered (new_effects demo_pending
        (state_of (check_order_fill demo_pending ''S'' ''X'' demo_market_order demo_tick))) \<and>
   \<not> spec_ordered (new_effects demo_long_held
        (state_of (close_position 2 demo_long_held ''S'' ''X'' demo_long_position
           (Some 95) ''SL'' (Some 2))))"
  by (simp add: spec_ordered_def new_effects_def demo_pending_def demo_long_held_def
      demo_open_long_def demo_tick_def demo_market_order_def demo_long_position_def
      engine_defs)

text \<open>
  C2, amended: a fill of the slot's pending order changes memory first (it stores the
  position, then removes the order), then publishes the order-execution notice, then
  saves the order row to the ledger, then writes the mirror (it deletes the order field,
  then sets the position field); when the order does not fill, the fill check has no
  effect. A close of the slot's position first saves the trade row to the ledger, then
  removes the position from memory, then deletes the position field of the mirror, then
  publishes the trade-terminal notice and the FLAT position notice.
\<close>

theorem handler_effect_order:
  "(get_order s a b = Some x \<longrightarrow>
      (\<exists>s'. state_of (check_order_fill s a b ord cd) = s' \<and>
         (if get_order s' a b = None
          then (\<exists>oe row pos.
                  new_effects s s' =
                    [MemSet ''positions'' a b, MemPop ''orders'' a b,
                     Publish (OrderExecutionEvent oe), SaveOrder row,
                     MirrorDel (''strategy:'' @ a @ '':orders'') b,
                     MirrorSet (''strategy:'' @ a @ '':positions'') b (PositionJson pos)]) \<and>
               map phase_of (new_effects s s') =
                 [Memory, Memory, Notice, Ledger, Mirror, Mirror]
          else new_effects s s' = []))) \<and>
   (get_position s a b = Some q \<longrightarrow>
      (\<exists>s' row tt flat.
         close_position now s a b pos price_override reason timestamp = Done s' \<and>
         new_effects s s' =
           [SaveTrade row, MemPop ''positions'' a b,
            MirrorDel (''strategy:'' @ a @ '':positions'') b,
            Publish (TradeTerminalEvent tt), Publish (PositionStateEvent flat)] \<and>
         map phase_of (new_effects s s') = [Ledger, Memory, Mirror, Notice, Notice]))"
proof (intro conjI impI)
  assume x: "get_order s a b = Some x"
  from x obtain d' where d': "slot_pop (orders s) a b = Some d'"
    unfolding get_order_def by (rule slot_pop_total)
  have filled: "\<exists>s'. state_of (check_order_fill s a b ord cd) = s' \<and>
         (if get_order s' a b = None
          then (\<exists>oe row pos.
                  new_effects s s' =
                    [MemSet ''positions'' a b, MemPop ''orders'' a b,
                     Publish (OrderExecutionEvent oe), SaveOrder row,
                     MirrorDel (''strategy:'' @ a @ '':orders'') b,
                     MirrorSet (''strategy:'' @ a @ '':positions'') b (PositionJson pos)]) \<and>
               map phase_of (new_effects s s') =
                 [Memory, Memory, Notice, Ledger, Mirror, Mirror]
          else new_effects s s' = [])"
    if "order_type ord = ''MARKET'' \<or>
        (\<exists>p. sig_price ord = Some p \<and> cd_low cd \<le> p \<and> p \<le> cd_high cd)"
    using that slot_get_pop [OF d', of a b]
    by (auto simp add: check_order_fill_def Let_def d' state_of_def get_order_def)
  show "\<exists>s'. state_of (check_order_fill s a b ord cd) = s' \<and>
         (if get_order s' a b = None
          then (\<exists>oe row pos.
                  new_effects s s' =
                    [MemSet ''positions'' a b, MemPop ''orders'' a b,
                     Publish (OrderExecutionEvent oe), SaveOrder row,
                     MirrorDel (''strategy:'' @ a @ '':orders'') b,
                     MirrorSet (''strategy:'' @ a @ '':positions'') b (PositionJson pos)]) \<and>
               map phase_of (new_effects s s') =
                 [Memory, Memory, Notice, Ledger, Mirror, Mirror]
          else new_effects s s' = [])"
  proof (cases "order_type ord = ''MARKET'' \<or>
        (\<exists>p. sig_price ord = Some p \<and> cd_low cd \<le> p \<and> p \<le> cd_high cd)")
    case True
    then show ?thesis by (rule filled)
  next
    case False
    then have lim: "order_type ord \<noteq> ''MARKET''" by simp
    show ?thesis
    proof (cases "sig_price ord")
      case None
      with check_order_fill_not_filled(1) [OF lim, of s a b cd] x show ?thesis
        by (simp add: state_of_def)
    next
      case (Some p)
      with False have "\<not> (cd_low cd \<le> p \<and> p \<le> cd_high cd)" by simp
      with check_order_fill_not_filled(2) [OF lim Some, of cd s a b] x show ?thesis
        by (simp add: state_of_def)
    qed
  qed
next
  assume "get_position s a b = Some q"
  then obtain d' where d': "slot_pop (positions s) a b = Some d'"
    unfolding get_position_def by (rule slot_pop_total)
  show "\<exists>s' row tt flat.
         close_position now s a b pos price_override reason timestamp = Done s' \<and>
         new_effects s s' =
           [SaveTrade row, MemPop ''positions'' a b,
            MirrorDel (''strategy:'' @ a @ '':positions'') b,
            Publish (TradeTerminalEvent tt), Publish (PositionStateEvent flat)] \<and>
         map phase_of (new_effects s s') = [Ledger, Memory, Mirror, Notice, Notice]"
    by (simp add: close_position_def Let_def d')
qed

theorem handler_effect_order_witness:
  "get_order demo_pending ''S'' ''X'' = Some demo_market_order \<and>
   get_order (state_of (check_order_fill demo_pending ''S'' ''X'' demo_market_order demo_tick))
     ''S'' ''X'' = None \<and>
   map phase_of (new_effects demo_pending
     (state_of (check_order_fill demo_pending ''S'' ''X'' demo_market_order demo_tick))) =
     [Memory, Memory, Notice, Ledger, Mirror, Mirror] \<and>
   get_position demo_long_held ''S'' ''X'' = Some demo_long_position \<and>
   (\<exists>s'. close_position 2 demo_long_held ''S'' ''X'' demo_long_position (Some 95) ''SL'' (Some 2)
           = Done s' \<and>
      map phase_of (new_effects demo_long_held s') = [Ledger, Memory, Mirror, Notice, Notice])"
proof -
  have h1: "get_order demo_pending ''S'' ''X'' = Some demo_market_order"
    by (simp add: demo_pending_slots)
  have h2: "get_position demo_long_held ''S'' ''X'' = Some demo_long_position"
    by (simp add: demo_long_held_slots)
  have gone: "get_order (state_of (check_order_fill demo_pending ''S'' ''X'' demo_market_order
      demo_tick)) ''S'' ''X'' = None"
    by (simp add: demo_pending_def demo_open_long_def demo_tick_def demo_market_order_def
        engine_defs)
  from handler_effect_order [of demo_pending "''S''" "''X''" demo_market_order
      demo_market_order demo_tick, THEN conjunct1] h1 gone
  have fill: "map phase_of (new_effects demo_pending
     (state_of (check_order_fill demo_pending ''S'' ''X'' demo_market_order demo_tick))) =
     [Memory, Memory, Notice, Ledger, Mirror, Mirror]"
    by auto
  from handler_effect_order [of demo_long_held "''S''" "''X''" demo_market_order
      demo_market_order demo_tick demo_long_position 2 demo_long_position "Some 95" "''SL''"
      "Some 2", THEN conjunct2] h2
  have "\<exists>s'. close_position 2 demo_long_held ''S'' ''X'' demo_long_position (Some 95) ''SL'' (Some 2)
           = Done s' \<and>
      map phase_of (new_effects demo_long_held s') = [Ledger, Memory, Mirror, Notice, Notice]"
    by auto
  with h1 h2 gone fill show ?thesis by simp
qed

end
